theory Spec2Isabelle
  imports Complex_Main
begin

section \<open>Data model\<close>

text \<open>
  The tables of the Prisma migration, one record per table, with the columns the
  copier engine, the account service and the foreign keys read or write.  A nullable
  column is an \<open>option\<close>.  \<open>INTEGER\<close> columns are \<open>int\<close>; \<open>DOUBLE PRECISION\<close>
  columns (balances, realised P&L, scale factors) are modelled as exact rationals, so the
  rounding of IEEE-754 arithmetic is outside this model.  Identifiers are the \<open>TEXT\<close>
  keys of the schema.  Timestamps are milliseconds as natural numbers.
\<close>

datatype RiskScalingType = FIXED | PERCENTAGE | BALANCE_BASED

datatype CopierStatus = ACTIVE | PAUSED | STOPPED | ERROR

datatype TradeStatus = PENDING | FILLED | PARTIALLY_FILLED | CANCELLED | REJECTED

datatype TradeSide = BUY | SELL

datatype TradeType = MARKET | LIMIT | STOP

datatype Platform = RITHMIC | TRADOVATE | NINJATRADER | PROJECTX | OTHER

datatype TradingFirm =
  TOPSTEPX | ALPHA_FUTURES | MYFUNDED_FUTURES | TAKEPROFIT_TRADER | TRADEFY

text \<open>
  A template string that interpolates a number, such as
  \<^verbatim>\<open>`Daily loss limit exceeded: ${dailyLoss}`\<close>, is kept as a list of fragments, so
  that the model does not depend on how JavaScript prints a number.
\<close>

datatype fragment = Str string | Num rat

type_synonym message = "fragment list"

record tradingAccount =
  a_id :: string
  a_userId :: string
  a_firm :: TradingFirm
  a_platform :: Platform
  a_accountNumber :: string
  a_currentBalance :: rat
  a_email :: "string option"
  a_password :: "string option"
  a_apiKey :: "string option"
  a_apiSecret :: "string option"
  a_environment :: "string option"
  a_isConnected :: bool
  a_lastSyncAt :: "nat option"
  a_errorMessage :: "string option"

record copier =
  c_id :: string
  c_userId :: string
  c_masterAccountId :: string
  c_status :: CopierStatus

record copierAccountConfig =
  cfg_id :: string
  cfg_copierId :: string
  cfg_slaveAccountId :: string
  cfg_scalingType :: RiskScalingType
  cfg_fixedContracts :: "int option"
  cfg_percentageScale :: "rat option"
  cfg_maxContracts :: "int option"
  cfg_dailyLossLimit :: "rat option"
  cfg_autoDisable :: bool
  cfg_isActive :: bool
  cfg_disabledReason :: "message option"

record trade =
  t_id :: string
  t_copierId :: "string option"
  t_accountId :: string
  t_symbol :: string
  t_side :: TradeSide
  t_type :: TradeType
  t_quantity :: int
  t_entryPrice :: "rat option"
  t_stopLoss :: "rat option"
  t_takeProfit :: "rat option"
  t_status :: TradeStatus
  t_openedAt :: "nat option"
  t_filledAt :: "nat option"
  t_realizedPnL :: "rat option"
  t_externalOrderId :: "string option"
  t_externalTradeId :: "string option"
  t_createdAt :: nat

record tradeMapping =
  m_id :: string
  m_copierId :: string
  m_masterTradeId :: string
  m_slaveTradeId :: string
  m_slaveAccountId :: string
  m_status :: string
  m_syncedAt :: "nat option"
  m_errorMessage :: "string option"

record executionLog =
  l_id :: string
  l_copierId :: string
  l_level :: string
  l_message :: string
  l_details :: "string option"
  l_masterTradeId :: "string option"
  l_slaveTradeId :: "string option"
  l_slaveAccountId :: "string option"

record transaction =
  x_id :: string
  x_userId :: string
  x_tradingAccountId :: "string option"

text \<open>
  The database: one list of rows per table, in insertion order, and the supply from
  which the next primary key is drawn.  Prisma assigns every new row a fresh \<open>cuid\<close>;
  the model takes it from a counter.
\<close>

record database =
  accounts :: "tradingAccount list"
  copiers :: "copier list"
  configs :: "copierAccountConfig list"
  trades :: "trade list"
  mappings :: "tradeMapping list"
  executionLogs :: "executionLog list"
  transactions :: "transaction list"
  nextId :: nat

definition cuid :: "nat \<Rightarrow> string" where
  "cuid n = CHR ''c'' # replicate n (CHR ''0'')"

section \<open>Adapter interface types (trading-adapter.interface.ts)\<close>

record connectionConfig =
  cc_email :: "string option"
  cc_password :: "string option"
  cc_apiKey :: "string option"
  cc_apiSecret :: "string option"
  cc_accountNumber :: string
  cc_environment :: "string option"

record tradeOrder =
  o_symbol :: string
  o_side :: TradeSide
  o_type :: TradeType
  o_quantity :: int
  o_stopLoss :: "rat option"
  o_takeProfit :: "rat option"

record tradeExecution =
  e_orderId :: string
  e_tradeId :: string
  e_symbol :: string
  e_side :: TradeSide
  e_quantity :: int
  e_price :: rat
  e_executedAt :: "nat option"
  e_status :: string

section \<open>JavaScript truthiness\<close>

text \<open>
  \<^verbatim>\<open>a || b\<close> yields \<open>b\<close> when \<open>a\<close> is \<open>null\<close>, \<open>undefined\<close>, \<open>0\<close> or the
  empty string, and \<open>a\<close> otherwise.
\<close>

definition or_int :: "int option \<Rightarrow> int \<Rightarrow> int" where
  "or_int a b = (case a of None \<Rightarrow> b | Some v \<Rightarrow> if v = 0 then b else v)"

definition or_rat :: "rat option \<Rightarrow> rat \<Rightarrow> rat" where
  "or_rat a b = (case a of None \<Rightarrow> b | Some v \<Rightarrow> if v = 0 then b else v)"

definition or_str :: "string option \<Rightarrow> string \<Rightarrow> string" where
  "or_str a b = (case a of None \<Rightarrow> b | Some v \<Rightarrow> if v = [] then b else v)"

definition truthy_rat :: "rat option \<Rightarrow> bool" where
  "truthy_rat a = (case a of None \<Rightarrow> False | Some v \<Rightarrow> v \<noteq> 0)"

definition truthy_str :: "string option \<Rightarrow> bool" where
  "truthy_str a = (case a of None \<Rightarrow> False | Some v \<Rightarrow> v \<noteq> [])"

section \<open>TradeCopierEngine.calculateScaledQuantity\<close>

text \<open>
  The \<^verbatim>\<open>default:\<close> branch of the source's \<^verbatim>\<open>switch\<close> is unreachable: the
  column is a non-null enum of three values.
\<close>

definition calculateScaledQuantity ::
  "int \<Rightarrow> copierAccountConfig \<Rightarrow> tradingAccount \<Rightarrow> int" where
  "calculateScaledQuantity masterQuantity slaveConfig slaveAccount =
     (case cfg_scalingType slaveConfig of
        FIXED \<Rightarrow> or_int (cfg_fixedContracts slaveConfig) masterQuantity
      | PERCENTAGE \<Rightarrow>
          (let percentage = or_rat (cfg_percentageScale slaveConfig) 1
           in \<lfloor>of_int masterQuantity * percentage\<rfloor>)
      | BALANCE_BASED \<Rightarrow>
          (let balanceRatio = a_currentBalance slaveAccount / 50000
           in \<lfloor>of_int masterQuantity * balanceRatio\<rfloor>))"

section \<open>The engine's surroundings\<close>

text \<open>
  \<^verbatim>\<open>AdapterFactory\<close> keeps one adapter instance per key \<^verbatim>\<open>`${platform}_${firm}`\<close>.
  What an adapter answers is outside the engine, so it is a parameter: whether a key is
  registered, the error message (if any) with which \<^verbatim>\<open>connect\<close> fails, and the execution
  or error message with which \<^verbatim>\<open>placeOrder\<close> answers.  \<open>now\<close> is \<^verbatim>\<open>new Date()\<close> and
  \<open>today\<close> is the local midnight that \<^verbatim>\<open>today.setHours(0, 0, 0, 0)\<close> computes from it.
\<close>

type_synonym adapterKey = "Platform \<times> TradingFirm"

record env =
  registered :: "adapterKey \<Rightarrow> bool"
  connectResult :: "adapterKey \<Rightarrow> connectionConfig \<Rightarrow> string option"
  placeOrderResult :: "adapterKey \<Rightarrow> tradeOrder \<Rightarrow> string + tradeExecution"
  now :: nat
  today :: nat

text \<open>
  The state the engine and the account service change: the database, the adapters whose
  \<^verbatim>\<open>isConnected()\<close> is true, the calls made to \<^verbatim>\<open>adapter.connect\<close> and
  \<^verbatim>\<open>adapter.placeOrder\<close> in order, and the lines written through the Nest \<^verbatim>\<open>Logger\<close>
  (level and text), which is the process log and not the \<open>ExecutionLog\<close> table.
\<close>

record world =
  db :: database
  connectedKeys :: "adapterKey list"
  connectCalls :: "(adapterKey \<times> connectionConfig) list"
  sent :: "(adapterKey \<times> tradeOrder) list"
  loggerOut :: "(string \<times> message) list"

fun platform_name :: "Platform \<Rightarrow> string" where
  "platform_name RITHMIC = ''RITHMIC''"
| "platform_name TRADOVATE = ''TRADOVATE''"
| "platform_name NINJATRADER = ''NINJATRADER''"
| "platform_name PROJECTX = ''PROJECTX''"
| "platform_name OTHER = ''OTHER''"

fun firm_name :: "TradingFirm \<Rightarrow> string" where
  "firm_name TOPSTEPX = ''TOPSTEPX''"
| "firm_name ALPHA_FUTURES = ''ALPHA_FUTURES''"
| "firm_name MYFUNDED_FUTURES = ''MYFUNDED_FUTURES''"
| "firm_name TAKEPROFIT_TRADER = ''TAKEPROFIT_TRADER''"
| "firm_name TRADEFY = ''TRADEFY''"

definition logLine :: "string \<Rightarrow> message \<Rightarrow> world \<Rightarrow> world" where
  "logLine level msg w = w\<lparr>loggerOut := loggerOut w @ [(level, msg)]\<rparr>"

section \<open>Persistence operations used by the engine\<close>

text \<open>
  \<^verbatim>\<open>prisma.trade.create\<close>: the \<open>Trade\<close> table has a primary key and no unique index,
  so an insert under a fresh key always succeeds.
\<close>

definition trade_create :: "trade \<Rightarrow> database \<Rightarrow> trade \<times> database" where
  "trade_create data d =
     (let row = data\<lparr>t_id := cuid (nextId d)\<rparr>
      in (row, d\<lparr>trades := trades d @ [row], nextId := Suc (nextId d)\<rparr>))"

text \<open>
  \<^verbatim>\<open>prisma.tradeMapping.create\<close>: the unique index
  \<open>TradeMapping_masterTradeId_slaveAccountId_key\<close> rejects a second row for the same
  master trade and follower account.
\<close>

definition tradeMapping_create :: "tradeMapping \<Rightarrow> database \<Rightarrow> string + database" where
  "tradeMapping_create data d =
     (case find (\<lambda>m. m_masterTradeId m = m_masterTradeId data
                     \<and> m_slaveAccountId m = m_slaveAccountId data) (mappings d) of
        Some _ \<Rightarrow> Inl ''Unique constraint failed on the fields: (masterTradeId,slaveAccountId)''
      | None \<Rightarrow>
          Inr (d\<lparr>mappings := mappings d @ [data\<lparr>m_id := cuid (nextId d)\<rparr>],
                 nextId := Suc (nextId d)\<rparr>))"

definition executionLog_create :: "executionLog \<Rightarrow> database \<Rightarrow> database" where
  "executionLog_create data d =
     d\<lparr>executionLogs := executionLogs d @ [data\<lparr>l_id := cuid (nextId d)\<rparr>],
       nextId := Suc (nextId d)\<rparr>"

definition copierAccountConfig_update ::
  "string \<Rightarrow> (copierAccountConfig \<Rightarrow> copierAccountConfig) \<Rightarrow> database \<Rightarrow> database" where
  "copierAccountConfig_update ident f d =
     d\<lparr>configs := map (\<lambda>c. if cfg_id c = ident then f c else c) (configs d)\<rparr>"

section \<open>TradeCopierEngine.checkRiskRules\<close>

record riskCheck =
  allowed :: bool
  reason :: "message option"

definition todayTrades ::
  "env \<Rightarrow> string \<Rightarrow> copierAccountConfig \<Rightarrow> database \<Rightarrow> trade list" where
  "todayTrades en copierId slaveConfig d =
     filter (\<lambda>t. t_copierId t = Some copierId
                \<and> t_accountId t = cfg_slaveAccountId slaveConfig
                \<and> today en \<le> t_createdAt t
                \<and> t_status t = FILLED) (trades d)"

definition dailyLossOf :: "trade list \<Rightarrow> rat" where
  "dailyLossOf ts = foldl (\<lambda>sum t. sum + or_rat (t_realizedPnL t) 0) 0 ts"

definition checkRiskRules ::
  "env \<Rightarrow> string \<Rightarrow> copierAccountConfig \<Rightarrow> database \<Rightarrow> riskCheck \<times> database" where
  "checkRiskRules en copierId slaveConfig d =
     (case cfg_dailyLossLimit slaveConfig of
        None \<Rightarrow> (\<lparr>allowed = True, reason = None\<rparr>, d)
      | Some limit \<Rightarrow>
          if limit = 0 then (\<lparr>allowed = True, reason = None\<rparr>, d)
          else
            let dailyLoss = dailyLossOf (todayTrades en copierId slaveConfig d);
                why = [Str ''Daily loss limit exceeded: '', Num dailyLoss]
            in if \<bar>dailyLoss\<bar> \<ge> limit then
                 (\<lparr>allowed = False, reason = Some why\<rparr>,
                  if cfg_autoDisable slaveConfig then
                    copierAccountConfig_update (cfg_id slaveConfig)
                      (\<lambda>c. c\<lparr>cfg_isActive := False, cfg_disabledReason := Some why\<rparr>) d
                  else d)
               else (\<lparr>allowed = True, reason = None\<rparr>, d))"

section \<open>TradeCopierEngine.copyTradeToSlave\<close>

text \<open>
  The arguments the engine passes to \<^verbatim>\<open>adapter.connect\<close>: the stored API key and secret
  (empty strings when missing), the account number and the additional configuration.
\<close>

definition engineConnectionConfig :: "tradingAccount \<Rightarrow> connectionConfig" where
  "engineConnectionConfig acct =
     \<lparr>cc_email = None, cc_password = None,
      cc_apiKey = Some (or_str (a_apiKey acct) []),
      cc_apiSecret = Some (or_str (a_apiSecret acct) []),
      cc_accountNumber = a_accountNumber acct,
      cc_environment = a_environment acct\<rparr>"

text \<open>
  \<^verbatim>\<open>if (!slaveAdapter.isConnected()) await slaveAdapter.connect(...)\<close>.  A failed
  \<^verbatim>\<open>connect\<close> leaves the adapter disconnected and raises its message.
\<close>

definition ensureConnected ::
  "env \<Rightarrow> adapterKey \<Rightarrow> connectionConfig \<Rightarrow> world \<Rightarrow> string option \<times> world" where
  "ensureConnected en key cc w =
     (if key \<in> set (connectedKeys w) then (None, w)
      else
        let w1 = w\<lparr>connectCalls := connectCalls w @ [(key, cc)]\<rparr>
        in case connectResult en key cc of
             Some err \<Rightarrow> (Some err, w1)
           | None \<Rightarrow> (None, w1\<lparr>connectedKeys := connectedKeys w1 @ [key]\<rparr>))"

definition mapTradeStatus :: "string \<Rightarrow> TradeStatus" where
  "mapTradeStatus s =
     (if s = ''filled'' then FILLED
      else if s = ''partially_filled'' then PARTIALLY_FILLED
      else if s = ''pending'' then PENDING
      else if s = ''cancelled'' then CANCELLED
      else if s = ''rejected'' then REJECTED
      else PENDING)"

definition executedAtOr :: "env \<Rightarrow> tradeExecution \<Rightarrow> nat" where
  "executedAtOr en ex = (case e_executedAt ex of None \<Rightarrow> now en | Some t \<Rightarrow> t)"

definition slaveOrderOf :: "trade \<Rightarrow> int \<Rightarrow> tradeOrder" where
  "slaveOrderOf masterTrade scaledQuantity =
     \<lparr>o_symbol = t_symbol masterTrade, o_side = t_side masterTrade, o_type = MARKET,
      o_quantity = scaledQuantity, o_stopLoss = t_stopLoss masterTrade,
      o_takeProfit = t_takeProfit masterTrade\<rparr>"

definition slaveTradeData ::
  "env \<Rightarrow> string \<Rightarrow> trade \<Rightarrow> copierAccountConfig \<Rightarrow> tradeExecution \<Rightarrow> trade" where
  "slaveTradeData en copierId masterTrade slaveConfig slaveExecution =
     \<lparr>t_id = [], t_copierId = Some copierId, t_accountId = cfg_slaveAccountId slaveConfig,
      t_symbol = e_symbol slaveExecution, t_side = e_side slaveExecution, t_type = MARKET,
      t_quantity = e_quantity slaveExecution, t_entryPrice = Some (e_price slaveExecution),
      t_stopLoss = t_stopLoss masterTrade, t_takeProfit = t_takeProfit masterTrade,
      t_status = mapTradeStatus (e_status slaveExecution),
      t_openedAt = Some (executedAtOr en slaveExecution),
      t_filledAt = Some (executedAtOr en slaveExecution),
      t_realizedPnL = Some 0,
      t_externalOrderId = Some (e_orderId slaveExecution),
      t_externalTradeId = Some (e_tradeId slaveExecution),
      t_createdAt = now en\<rparr>"

definition syncedMapping ::
  "env \<Rightarrow> string \<Rightarrow> trade \<Rightarrow> trade \<Rightarrow> copierAccountConfig \<Rightarrow> tradeMapping" where
  "syncedMapping en copierId masterTrade slaveTrade slaveConfig =
     \<lparr>m_id = [], m_copierId = copierId, m_masterTradeId = t_id masterTrade,
      m_slaveTradeId = t_id slaveTrade, m_slaveAccountId = cfg_slaveAccountId slaveConfig,
      m_status = ''synced'', m_syncedAt = Some (now en), m_errorMessage = None\<rparr>"

definition failedMapping ::
  "string \<Rightarrow> trade \<Rightarrow> copierAccountConfig \<Rightarrow> string \<Rightarrow> tradeMapping" where
  "failedMapping copierId masterTrade slaveConfig msg =
     \<lparr>m_id = [], m_copierId = copierId, m_masterTradeId = t_id masterTrade,
      m_slaveTradeId = [], m_slaveAccountId = cfg_slaveAccountId slaveConfig,
      m_status = ''failed'', m_syncedAt = None, m_errorMessage = Some msg\<rparr>"

definition copiedLog :: "string \<Rightarrow> trade \<Rightarrow> trade \<Rightarrow> copierAccountConfig \<Rightarrow> executionLog" where
  "copiedLog copierId masterTrade slaveTrade slaveConfig =
     \<lparr>l_id = [], l_copierId = copierId, l_level = ''info'',
      l_message = ''Trade copied to slave account'', l_details = None,
      l_masterTradeId = Some (t_id masterTrade), l_slaveTradeId = Some (t_id slaveTrade),
      l_slaveAccountId = Some (cfg_slaveAccountId slaveConfig)\<rparr>"

definition failedLog :: "string \<Rightarrow> trade \<Rightarrow> copierAccountConfig \<Rightarrow> string \<Rightarrow> executionLog" where
  "failedLog copierId masterTrade slaveConfig msg =
     \<lparr>l_id = [], l_copierId = copierId, l_level = ''error'',
      l_message = ''Failed to copy trade to slave: '' @ msg,
      l_details = Some (''Error: '' @ msg),
      l_masterTradeId = Some (t_id masterTrade), l_slaveTradeId = None,
      l_slaveAccountId = Some (cfg_slaveAccountId slaveConfig)\<rparr>"

text \<open>
  The body of the \<^verbatim>\<open>try\<close> block.  The first component is the message of the
  exception that left the block, if one did; the state reached up to that point stays.
\<close>

definition copyTradeToSlave_try ::
  "env \<Rightarrow> string \<Rightarrow> trade \<Rightarrow> copierAccountConfig \<times> tradingAccount \<Rightarrow> world
     \<Rightarrow> string option \<times> world" where
  "copyTradeToSlave_try en copierId masterTrade sc w =
     (let slaveConfig = fst sc; slaveAccount = snd sc;
          rc = checkRiskRules en copierId slaveConfig (db w);
          w1 = w\<lparr>db := snd rc\<rparr>
      in
      if \<not> allowed (fst rc) then
        (None, logLine ''warn''
           ([Str ''Risk rule violated for slave '', Str (cfg_slaveAccountId slaveConfig),
             Str '': ''] @ (case reason (fst rc) of None \<Rightarrow> [Str ''undefined''] | Some r \<Rightarrow> r)) w1)
      else
        let scaledQuantity =
              calculateScaledQuantity (t_quantity masterTrade) slaveConfig slaveAccount
        in
        if scaledQuantity \<le> 0 then
          (None, logLine ''warn''
             [Str ''Scaled quantity is 0 for slave '', Str (cfg_slaveAccountId slaveConfig)] w1)
        else
          let key = (a_platform slaveAccount, a_firm slaveAccount) in
          if \<not> registered en key then
            (Some (''No adapter found for platform '' @ platform_name (fst key)
                     @ '' and firm '' @ firm_name (snd key)), w1)
          else
            (case ensureConnected en key (engineConnectionConfig slaveAccount) w1 of
               (Some err, w2) \<Rightarrow> (Some err, w2)
             | (None, w2) \<Rightarrow>
                 (let slaveOrder = slaveOrderOf masterTrade scaledQuantity;
                      w3 = w2\<lparr>sent := sent w2 @ [(key, slaveOrder)]\<rparr>
                  in
                  (case placeOrderResult en key slaveOrder of
                     Inl err \<Rightarrow> (Some err, w3)
                   | Inr slaveExecution \<Rightarrow>
                       (let tc = trade_create
                                   (slaveTradeData en copierId masterTrade slaveConfig
                                      slaveExecution)
                                   (db w3);
                            slaveTrade = fst tc
                        in
                        (case tradeMapping_create
                                (syncedMapping en copierId masterTrade slaveTrade slaveConfig)
                                (snd tc) of
                           Inl err \<Rightarrow> (Some err, w3\<lparr>db := snd tc\<rparr>)
                         | Inr d5 \<Rightarrow>
                             (None,
                              (logLine ''log''
                                 [Str ''Trade copied: '', Str (t_id masterTrade), Str '' -> '',
                                  Str (t_id slaveTrade), Str '' ('',
                                  Num (of_int scaledQuantity), Str '' contracts)''] w3)
                              \<lparr>db := executionLog_create
                                       (copiedLog copierId masterTrade slaveTrade slaveConfig)
                                       d5\<rparr>)))))))"

text \<open>
  How the promise of one follower settles.  \<^verbatim>\<open>copyTradeToSlave\<close> rejects only when
  the insert inside its \<^verbatim>\<open>catch\<close> block fails.
\<close>

datatype outcome = Fulfilled | Rejected string

definition copyTradeToSlave ::
  "env \<Rightarrow> string \<Rightarrow> trade \<Rightarrow> copierAccountConfig \<times> tradingAccount \<Rightarrow> world
     \<Rightarrow> outcome \<times> world" where
  "copyTradeToSlave en copierId masterTrade sc w =
     (case copyTradeToSlave_try en copierId masterTrade sc w of
        (None, w') \<Rightarrow> (Fulfilled, w')
      | (Some msg, w') \<Rightarrow>
          let w1 = logLine ''error''
                     [Str ''Error copying trade to slave '', Str (cfg_slaveAccountId (fst sc)),
                      Str '':'', Str msg] w'
          in (case tradeMapping_create (failedMapping copierId masterTrade (fst sc) msg)
                      (db w1) of
                Inl err \<Rightarrow> (Rejected err, w1)
              | Inr d2 \<Rightarrow>
                  (Fulfilled,
                   w1\<lparr>db := executionLog_create
                               (failedLog copierId masterTrade (fst sc) msg) d2\<rparr>)))"

section \<open>TradeCopierEngine.handleMasterTrade\<close>

definition find_copier :: "database \<Rightarrow> string \<Rightarrow> copier option" where
  "find_copier d copierId = find (\<lambda>c. c_id c = copierId) (copiers d)"

text \<open>
  \<^verbatim>\<open>slaveConfigs: { where: { isActive: true }, include: { slaveAccount: true } }\<close>:
  the copier's active follower configs, each joined with its account row (which the
  foreign key \<open>CopierAccountConfig_slaveAccountId_fkey\<close> guarantees to exist).
\<close>

definition joinAccount ::
  "database \<Rightarrow> copierAccountConfig \<Rightarrow> (copierAccountConfig \<times> tradingAccount) option" where
  "joinAccount d c =
     (case find (\<lambda>a. a_id a = cfg_slaveAccountId c) (accounts d) of
        None \<Rightarrow> None | Some a \<Rightarrow> Some (c, a))"

definition activeSlaveConfigs ::
  "database \<Rightarrow> string \<Rightarrow> (copierAccountConfig \<times> tradingAccount) list" where
  "activeSlaveConfigs d copierId =
     List.map_filter (joinAccount d)
       (filter (\<lambda>c. cfg_copierId c = copierId \<and> cfg_isActive c) (configs d))"

definition masterTradeData :: "env \<Rightarrow> string \<Rightarrow> copier \<Rightarrow> tradeExecution \<Rightarrow> trade" where
  "masterTradeData en copierId cop masterExecution =
     \<lparr>t_id = [], t_copierId = Some copierId, t_accountId = c_masterAccountId cop,
      t_symbol = e_symbol masterExecution, t_side = e_side masterExecution, t_type = MARKET,
      t_quantity = e_quantity masterExecution, t_entryPrice = Some (e_price masterExecution),
      t_stopLoss = None, t_takeProfit = None,
      t_status = mapTradeStatus (e_status masterExecution),
      t_openedAt = Some (executedAtOr en masterExecution),
      t_filledAt = Some (executedAtOr en masterExecution),
      t_realizedPnL = Some 0,
      t_externalOrderId = Some (e_orderId masterExecution),
      t_externalTradeId = Some (e_tradeId masterExecution),
      t_createdAt = now en\<rparr>"

text \<open>
  \<^verbatim>\<open>Promise.allSettled(copier.slaveConfigs.map(copyTradeToSlave))\<close>: every follower is
  started whatever the others do, and the settled outcomes are collected and discarded.
  The followers run interleaved in the source; the model runs them in list order.
\<close>

fun fanOut ::
  "env \<Rightarrow> string \<Rightarrow> trade \<Rightarrow> (copierAccountConfig \<times> tradingAccount) list \<Rightarrow> world
     \<Rightarrow> outcome list \<times> world" where
  "fanOut en copierId masterTrade [] w = ([], w)"
| "fanOut en copierId masterTrade (sc # scs) w =
     (let r = copyTradeToSlave en copierId masterTrade sc w;
          rs = fanOut en copierId masterTrade scs (snd r)
      in (fst r # fst rs, snd rs))"

text \<open>
  None of the statements inside the handler's own \<^verbatim>\<open>try\<close> raises in this model (the
  lookup and the insert of the master row cannot violate a constraint, and settled
  promises do not throw), so its \<^verbatim>\<open>catch\<close> block has no counterpart here.
\<close>

definition handleMasterTrade :: "env \<Rightarrow> string \<Rightarrow> tradeExecution \<Rightarrow> world \<Rightarrow> world" where
  "handleMasterTrade en copierId masterExecution w =
     (case find_copier (db w) copierId of
        None \<Rightarrow> w
      | Some cop \<Rightarrow>
          if c_status cop \<noteq> ACTIVE then w
          else
            let slaveConfigs = activeSlaveConfigs (db w) copierId;
                tc = trade_create (masterTradeData en copierId cop masterExecution) (db w)
            in snd (fanOut en copierId (fst tc) slaveConfigs (w\<lparr>db := snd tc\<rparr>)))"

section \<open>The specification's wording of the daily sum\<close>


section \<open>The unique index on TradeMapping\<close>


section \<open>AccountsService.connect\<close>








section \<open>Referential actions of the migration\<close>

datatype dbError = RecordNotFound | ForeignKeyViolation string

text \<open>
  \<^verbatim>\<open>DELETE FROM "Copier" WHERE id = ...\<close> under the foreign keys that reference
  \<open>Copier\<close>: \<open>CopierAccountConfig_copierId_fkey\<close>, \<open>TradeMapping_copierId_fkey\<close> and
  \<open>ExecutionLog_copierId_fkey\<close> are \<open>ON DELETE CASCADE\<close>, \<open>Trade_copierId_fkey\<close> is
  \<open>ON DELETE SET NULL\<close>.  No foreign key references the cascaded rows.
\<close>

definition copier_delete :: "string \<Rightarrow> database \<Rightarrow> dbError + database" where
  "copier_delete ident d =
     (case find (\<lambda>c. c_id c = ident) (copiers d) of
        None \<Rightarrow> Inl RecordNotFound
      | Some _ \<Rightarrow>
          Inr (d\<lparr>copiers := filter (\<lambda>c. c_id c \<noteq> ident) (copiers d),
                 configs := filter (\<lambda>c. cfg_copierId c \<noteq> ident) (configs d),
                 trades := map (\<lambda>t. if t_copierId t = Some ident then t\<lparr>t_copierId := None\<rparr>
                                     else t) (trades d),
                 mappings := filter (\<lambda>m. m_copierId m \<noteq> ident) (mappings d),
                 executionLogs := filter (\<lambda>l. l_copierId l \<noteq> ident) (executionLogs d)\<rparr>))"

text \<open>
  \<^verbatim>\<open>DELETE FROM "TradingAccount" WHERE id = ...\<close> under the foreign keys that reference
  \<open>TradingAccount\<close>: \<open>Copier_masterAccountId_fkey\<close> and \<open>Trade_accountId_fkey\<close> are
  \<open>ON DELETE RESTRICT\<close> (the statement fails while such a row exists),
  \<open>CopierAccountConfig_slaveAccountId_fkey\<close> is \<open>ON DELETE CASCADE\<close>, and
  \<open>Transaction_tradingAccountId_fkey\<close> is \<open>ON DELETE SET NULL\<close>.
\<close>

definition tradingAccount_delete :: "string \<Rightarrow> database \<Rightarrow> dbError + database" where
  "tradingAccount_delete ident d =
     (case find (\<lambda>a. a_id a = ident) (accounts d) of
        None \<Rightarrow> Inl RecordNotFound
      | Some _ \<Rightarrow>
          (case find (\<lambda>c. c_masterAccountId c = ident) (copiers d) of
             Some _ \<Rightarrow> Inl (ForeignKeyViolation ''Copier_masterAccountId_fkey'')
           | None \<Rightarrow>
               (case find (\<lambda>t. t_accountId t = ident) (trades d) of
                  Some _ \<Rightarrow> Inl (ForeignKeyViolation ''Trade_accountId_fkey'')
                | None \<Rightarrow>
                    Inr (d\<lparr>accounts := filter (\<lambda>a. a_id a \<noteq> ident) (accounts d),
                           configs := filter (\<lambda>c. cfg_slaveAccountId c \<noteq> ident) (configs d),
                           transactions :=
                             map (\<lambda>x. if x_tradingAccountId x = Some ident
                                       then x\<lparr>x_tradingAccountId := None\<rparr> else x)
                                 (transactions d)\<rparr>))))"

section \<open>RithmicAdapter.authenticate\<close>

text \<open>
  The three bodies the adapter posts.  The \<open>environment\<close> field is present only when
  \<^verbatim>\<open>config.config?.environment\<close> is truthy.
\<close>

datatype payload =
    EmailPassword string string string "string option"
  | ApiKeySecret string string string "string option"
  | UsernamePassword string string "string option"

text \<open>
  What \<^verbatim>\<open>httpClient.post\<close> comes back with: a response (status and body), or no response
  at all (a transport error).  With \<^verbatim>\<open>validateStatus: (status) => status < 500\<close> a
  response of status 500 or more is thrown like a transport error.  The server may keep
  state between requests.
\<close>

datatype response = Response nat string | TransportError string

type_synonym 's server = "'s \<Rightarrow> string \<Rightarrow> payload \<Rightarrow> response \<times> 's"

definition authEndpoints :: "string list" where
  "authEndpoints =
     [''/auth/login'', ''/api/auth/login'', ''/v1/auth/login'', ''/login'', ''/api/login'',
      ''/authenticate'', ''/api/authenticate'']"

definition accepted :: "response \<Rightarrow> string option" where
  "accepted r =
     (case r of
        TransportError _ \<Rightarrow> None
      | Response status body \<Rightarrow>
          if status < 500 \<and> (status = 200 \<or> status = 201) then Some body else None)"

text \<open>
  One \<^verbatim>\<open>for (const endpoint of authEndpoints)\<close> loop: it returns at the first accepted
  response, and goes on to the next endpoint after any other response or an exception.
\<close>

fun postEach :: "'s server \<Rightarrow> payload \<Rightarrow> string list \<Rightarrow> 's \<Rightarrow> string option \<times> 's" where
  "postEach post p [] s = (None, s)"
| "postEach post p (endpoint # rest) s =
     (let r = post s endpoint p
      in case accepted (fst r) of
           Some body \<Rightarrow> (Some body, snd r)
         | None \<Rightarrow> postEach post p rest (snd r))"

definition environmentOf :: "connectionConfig \<Rightarrow> string option" where
  "environmentOf config = (if truthy_str (cc_environment config) then cc_environment config else None)"

definition emailPayload :: "connectionConfig \<Rightarrow> payload" where
  "emailPayload config =
     EmailPassword (or_str (cc_email config) []) (or_str (cc_password config) [])
       (cc_accountNumber config) (environmentOf config)"

definition apiKeyPayload :: "connectionConfig \<Rightarrow> payload" where
  "apiKeyPayload config =
     ApiKeySecret (or_str (cc_apiKey config) []) (or_str (cc_apiSecret config) [])
       (cc_accountNumber config) (environmentOf config)"

definition usernamePayload :: "connectionConfig \<Rightarrow> payload" where
  "usernamePayload config =
     UsernamePassword (cc_accountNumber config) (or_str (cc_password config) [])
       (environmentOf config)"

definition authenticate ::
  "'s server \<Rightarrow> connectionConfig \<Rightarrow> 's \<Rightarrow> (string + string) \<times> 's" where
  "authenticate post config s =
     (let r1 = (if truthy_str (cc_email config) \<and> truthy_str (cc_password config)
                then postEach post (emailPayload config) authEndpoints s
                else (None, s))
      in case fst r1 of
           Some body \<Rightarrow> (Inr body, snd r1)
         | None \<Rightarrow>
             (let r2 = (if truthy_str (cc_apiKey config) \<and> truthy_str (cc_apiSecret config)
                        then postEach post (apiKeyPayload config) authEndpoints (snd r1)
                        else (None, snd r1))
              in case fst r2 of
                   Some body \<Rightarrow> (Inr body, snd r2)
                 | None \<Rightarrow>
                     (let r3 = (if truthy_str (cc_password config)
                                then postEach post (usernamePayload config) authEndpoints (snd r2)
                                else (None, snd r2))
                      in case fst r3 of
                           Some body \<Rightarrow> (Inr body, snd r3)
                         | None \<Rightarrow>
                             (Inl (''Authentication failed: No valid credentials provided ''
                                   @ ''or all authentication methods failed''), snd r3))))"

subsection \<open>Orders of probing\<close>

text \<open>
  The credential shapes a configuration enables, in the order the adapter tries them.
\<close>

definition shapesOf :: "connectionConfig \<Rightarrow> payload list" where
  "shapesOf config =
     (if truthy_str (cc_email config) \<and> truthy_str (cc_password config)
      then [emailPayload config] else [])
     @ (if truthy_str (cc_apiKey config) \<and> truthy_str (cc_apiSecret config)
        then [apiKeyPayload config] else [])
     @ (if truthy_str (cc_password config) then [usernamePayload config] else [])"

text \<open>
  The requests in the adapter's order: for each shape, every endpoint.
\<close>

definition probeOrder :: "connectionConfig \<Rightarrow> (string \<times> payload) list" where
  "probeOrder config =
     concat (map (\<lambda>p. map (\<lambda>endpoint. (endpoint, p)) authEndpoints) (shapesOf config))"

text \<open>
  Following the specification's words, for comparison with \<open>probeOrder\<close>: the eight auth
  endpoints in order and, for each endpoint, the credential shapes in order.
\<close>

definition spec_authEndpoints :: "string list" where
  "spec_authEndpoints =
     [''/auth/login'', ''/api/auth/login'', ''/v1/auth/login'', ''/login'', ''/api/login'',
      ''/authenticate'', ''/api/authenticate'', ''/oauth/token'']"

definition spec_probeOrder :: "connectionConfig \<Rightarrow> (string \<times> payload) list" where
  "spec_probeOrder config =
     concat (map (\<lambda>endpoint. map (\<lambda>p. (endpoint, p)) (shapesOf config)) spec_authEndpoints)"

text \<open>
  A single loop over a list of requests that stops at the first accepted response and
  fails with the adapter's message when the list is exhausted.
\<close>

fun firstAccepted :: "'s server \<Rightarrow> (string \<times> payload) list \<Rightarrow> 's \<Rightarrow> string option \<times> 's" where
  "firstAccepted post [] s = (None, s)"
| "firstAccepted post (q # qs) s =
     (let r = post s (fst q) (snd q)
      in case accepted (fst r) of
           Some body \<Rightarrow> (Some body, snd r)
         | None \<Rightarrow> firstAccepted post qs (snd r))"

definition probeInOrder ::
  "'s server \<Rightarrow> (string \<times> payload) list \<Rightarrow> 's \<Rightarrow> (string + string) \<times> 's" where
  "probeInOrder post qs s =
     (case firstAccepted post qs s of
        (Some body, s') \<Rightarrow> (Inr body, s')
      | (None, s') \<Rightarrow>
          (Inl (''Authentication failed: No valid credentials provided ''
                @ ''or all authentication methods failed''), s'))"

text \<open>
  Two servers whose state is the list of requests received so far: one answers every
  request with 401, the other with 204.
\<close>

definition recording :: "nat \<Rightarrow> (string \<times> payload) list server" where
  "recording status = (\<lambda>s endpoint p. (Response status [], s @ [(endpoint, p)]))"

definition fullConfig :: connectionConfig where
  "fullConfig =
     \<lparr>cc_email = Some ''m@example.com'', cc_password = Some ''pw'',
      cc_apiKey = Some ''key'', cc_apiSecret = Some ''secret'',
      cc_accountNumber = ''M-1'', cc_environment = None\<rparr>"

section \<open>BaseHttpAdapter\<close>

text \<open>
  The adapter's fields that \<open>placeOrder\<close>, \<open>onTradeUpdate\<close> and the polling timer use.  A
  callback is a function object compared by reference (\<^verbatim>\<open>indexOf(callback)\<close>); the model
  names each by a number.  \<open>invoked\<close> records every call \<^verbatim>\<open>callback(execution)\<close> in order.
  The callbacks the engine registers are \<^verbatim>\<open>async\<close> functions, which never throw
  synchronously, so a call in the model always returns.
\<close>

record adapterState =
  ad_connected :: bool
  tradeCallbacks :: "nat list"
  lastTradeId :: "string option"
  invoked :: "(nat \<times> tradeExecution) list"

definition onTradeUpdate :: "nat \<Rightarrow> adapterState \<Rightarrow> adapterState" where
  "onTradeUpdate callback a = a\<lparr>tradeCallbacks := tradeCallbacks a @ [callback]\<rparr>"

text \<open>The disposer that \<open>onTradeUpdate\<close> returns: \<^verbatim>\<open>indexOf\<close> and \<^verbatim>\<open>splice(index, 1)\<close>.\<close>

definition disposeTradeUpdate :: "nat \<Rightarrow> adapterState \<Rightarrow> adapterState" where
  "disposeTradeUpdate callback a = a\<lparr>tradeCallbacks := remove1 callback (tradeCallbacks a)\<rparr>"

definition unsubscribe :: "adapterState \<Rightarrow> adapterState" where
  "unsubscribe a = a\<lparr>tradeCallbacks := []\<rparr>"

text \<open>\<^verbatim>\<open>this.tradeCallbacks.forEach((callback) => callback(execution))\<close>.\<close>

definition notifyTrade :: "tradeExecution \<Rightarrow> adapterState \<Rightarrow> adapterState" where
  "notifyTrade execution a =
     a\<lparr>invoked := invoked a @ map (\<lambda>callback. (callback, execution)) (tradeCallbacks a)\<rparr>"

text \<open>
  \<open>placeOrder\<close>; the abstract \<open>executePlaceOrder\<close> of the subclass is a parameter.
\<close>

definition placeOrder ::
  "(tradeOrder \<Rightarrow> string + tradeExecution) \<Rightarrow> tradeOrder \<Rightarrow> adapterState
     \<Rightarrow> (string + tradeExecution) \<times> adapterState" where
  "placeOrder executePlaceOrder ord a =
     (if \<not> ad_connected a then (Inl ''Not connected to trading platform'', a)
      else
        case executePlaceOrder ord of
          Inl err \<Rightarrow> (Inl err, a)
        | Inr execution \<Rightarrow> (Inr execution, notifyTrade execution a))"

text \<open>
  One tick of the polling timer of \<open>startTradePolling\<close>, given the trades that
  \<open>fetchTrades\<close> returned: the path on which an incoming execution reaches the callbacks.
\<close>

fun pollTrades :: "tradeExecution list \<Rightarrow> adapterState \<Rightarrow> adapterState" where
  "pollTrades [] a = a"
| "pollTrades (t # ts) a =
     pollTrades ts
       (if \<not> truthy_str (lastTradeId a) \<or> Some (e_tradeId t) \<noteq> lastTradeId a
        then (notifyTrade t a)\<lparr>lastTradeId := Some (e_tradeId t)\<rparr>
        else a)"

section \<open>Sample rows used to evaluate the definitions\<close>

definition masterAccount :: tradingAccount where
  "masterAccount =
     \<lparr>a_id = ''acc-m'', a_userId = ''u1'', a_firm = TOPSTEPX, a_platform = PROJECTX,
      a_accountNumber = ''M-1'', a_currentBalance = 50000,
      a_email = Some ''m@example.com'', a_password = Some ''pw'',
      a_apiKey = None, a_apiSecret = None, a_environment = None,
      a_isConnected = True, a_lastSyncAt = None, a_errorMessage = None\<rparr>"

definition followerAccount :: tradingAccount where
  "followerAccount =
     \<lparr>a_id = ''acc-f'', a_userId = ''u1'', a_firm = TAKEPROFIT_TRADER, a_platform = TRADOVATE,
      a_accountNumber = ''F-1'', a_currentBalance = 25000,
      a_email = Some ''f@example.com'', a_password = Some ''pw'',
      a_apiKey = None, a_apiSecret = None, a_environment = None,
      a_isConnected = False, a_lastSyncAt = None, a_errorMessage = None\<rparr>"

definition followerConfig :: copierAccountConfig where
  "followerConfig =
     \<lparr>cfg_id = ''cfg-f'', cfg_copierId = ''cop1'', cfg_slaveAccountId = ''acc-f'',
      cfg_scalingType = FIXED, cfg_fixedContracts = Some 5, cfg_percentageScale = None,
      cfg_maxContracts = None, cfg_dailyLossLimit = None, cfg_autoDisable = True,
      cfg_isActive = True, cfg_disabledReason = None\<rparr>"

definition sampleCopier :: copier where
  "sampleCopier =
     \<lparr>c_id = ''cop1'', c_userId = ''u1'', c_masterAccountId = ''acc-m'', c_status = ACTIVE\<rparr>"

text \<open>A filled follower trade of the current day that realised a loss of 500.\<close>

definition lossTrade :: trade where
  "lossTrade =
     \<lparr>t_id = ''t-loss'', t_copierId = Some ''cop1'', t_accountId = ''acc-f'',
      t_symbol = ''ES'', t_side = BUY, t_type = MARKET, t_quantity = 1,
      t_entryPrice = Some 5000, t_stopLoss = None, t_takeProfit = None, t_status = FILLED,
      t_openedAt = None, t_filledAt = None, t_realizedPnL = Some (- 500),
      t_externalOrderId = None, t_externalTradeId = None, t_createdAt = 86400005\<rparr>"

definition sampleDb :: database where
  "sampleDb =
     \<lparr>accounts = [masterAccount, followerAccount], copiers = [sampleCopier],
      configs = [followerConfig], trades = [], mappings = [], executionLogs = [],
      transactions = [], nextId = 0\<rparr>"

definition fillOf :: "tradeOrder \<Rightarrow> tradeExecution" where
  "fillOf ord =
     \<lparr>e_orderId = ''O-9'', e_tradeId = ''T-9'', e_symbol = o_symbol ord, e_side = o_side ord,
      e_quantity = o_quantity ord, e_price = 5000, e_executedAt = Some 90000000,
      e_status = ''filled''\<rparr>"

text \<open>An environment in which every adapter is registered, connects and fills.\<close>

definition sampleEnv :: env where
  "sampleEnv =
     \<lparr>registered = (\<lambda>key. True), connectResult = (\<lambda>key cc. None),
      placeOrderResult = (\<lambda>key ord. Inr (fillOf ord)),
      now = 90000000, today = 86400000\<rparr>"

definition sampleWorld :: world where
  "sampleWorld =
     \<lparr>db = sampleDb, connectedKeys = [], connectCalls = [], sent = [], loggerOut = []\<rparr>"

text \<open>The master fill of the seed scenarios: buy 1 ES at 5000.\<close>

definition masterFill :: tradeExecution where
  "masterFill =
     \<lparr>e_orderId = ''O-1'', e_tradeId = ''T-1'', e_symbol = ''ES'', e_side = BUY,
      e_quantity = 1, e_price = 5000, e_executedAt = Some 90000000, e_status = ''filled''\<rparr>"

definition masterRow :: trade where
  "masterRow = (masterTradeData sampleEnv ''cop1'' sampleCopier masterFill)\<lparr>t_id := ''t-m''\<rparr>"

text \<open>
  A database in which the sample copier has produced a follower trade, a mapping and a
  log entry.
\<close>

definition sampleMapping :: tradeMapping where
  "sampleMapping =
     \<lparr>m_id = ''map-1'', m_copierId = ''cop1'', m_masterTradeId = ''t-m'',
      m_slaveTradeId = ''t-loss'', m_slaveAccountId = ''acc-f'', m_status = ''synced'',
      m_syncedAt = Some 86400005, m_errorMessage = None\<rparr>"

definition sampleLog :: executionLog where
  "sampleLog =
     \<lparr>l_id = ''log-1'', l_copierId = ''cop1'', l_level = ''info'',
      l_message = ''Trade copied to slave account'', l_details = None,
      l_masterTradeId = Some ''t-m'', l_slaveTradeId = Some ''t-loss'',
      l_slaveAccountId = Some ''acc-f''\<rparr>"

definition usedDb :: database where
  "usedDb = sampleDb\<lparr>trades := [lossTrade], mappings := [sampleMapping],
                      executionLogs := [sampleLog]\<rparr>"

text \<open>A connected adapter with two registered trade callbacks.\<close>

definition sampleAdapter :: adapterState where
  "sampleAdapter =
     \<lparr>ad_connected = True, tradeCallbacks = [1, 2], lastTradeId = None, invoked = []\<rparr>"

section \<open>Scaling\<close>

lemma or_int_simps [simp]:
  "or_int None b = b" "or_int (Some 0) b = b" "v \<noteq> 0 \<Longrightarrow> or_int (Some v) b = v"
  by (simp_all add: or_int_def)

lemma or_rat_simps [simp]:
  "or_rat None b = b" "or_rat (Some 0) b = b" "v \<noteq> 0 \<Longrightarrow> or_rat (Some v) b = v"
  by (simp_all add: or_rat_def)

text \<open>
  The seed scenarios of the specification: a master fill of 3 at a scale of one half
  gives 1, and a master fill of 4 on a balance of 25000 gives 2.
\<close>

lemma percentage_scaling_rounds_down:
  "calculateScaledQuantity 3
     (followerConfig\<lparr>cfg_scalingType := PERCENTAGE, cfg_percentageScale := Some (1 / 2)\<rparr>)
     followerAccount = 1"
  by (simp add: calculateScaledQuantity_def followerConfig_def floor_eq_iff)

lemma balance_based_scaling_example:
  "calculateScaledQuantity 4 (followerConfig\<lparr>cfg_scalingType := BALANCE_BASED\<rparr>)
     followerAccount = 2"
  by (simp add: calculateScaledQuantity_def followerConfig_def followerAccount_def floor_eq_iff)

text \<open>
  What the function computes, case by case.  A stored \<open>fixedContracts\<close> or
  \<open>percentageScale\<close> of zero is falsy in \<^verbatim>\<open>x || default\<close> and is replaced by the default,
  exactly as a null is.
\<close>

lemma calculateScaledQuantity_by_scalingType:
  "calculateScaledQuantity Q C A =
     (case cfg_scalingType C of
        FIXED \<Rightarrow>
          (case cfg_fixedContracts C of
             None \<Rightarrow> Q
           | Some n \<Rightarrow> if n = 0 then Q else n)
      | PERCENTAGE \<Rightarrow>
          (case cfg_percentageScale C of
             None \<Rightarrow> Q
           | Some p \<Rightarrow> if p = 0 then Q else \<lfloor>of_int Q * p\<rfloor>)
      | BALANCE_BASED \<Rightarrow> \<lfloor>of_int Q * a_currentBalance A / 50000\<rfloor>)"
  by (simp add: calculateScaledQuantity_def or_int_def or_rat_def
           split: RiskScalingType.split option.split)

text \<open>
  Claim C3 (for every master quantity \<open>Q > 0\<close> the scaled quantity is \<open>C.fixedContracts\<close>
  under FIXED, \<open>\<lfloor>Q \<cdot> C.percentageScale\<rfloor>\<close> under PERCENTAGE for every \<open>percentageScale\<close> including
  0, and \<open>\<lfloor>Q \<cdot> A.currentBalance / 50000\<rfloor>\<close> under BALANCE_BASED) names the intended
  behaviour; the code departs from it at zero.  With \<open>scalingType = PERCENTAGE\<close> and
  \<open>percentageScale = 0\<close> a master quantity of 3 is scaled to 3, not to \<open>\<lfloor>3 \<cdot> 0\<rfloor> = 0\<close>,
  because \<^verbatim>\<open>slaveConfig.percentageScale || 1.0\<close> replaces a scale of zero by one; likewise
  \<open>fixedContracts = 0\<close> under FIXED yields 3, because of
  \<^verbatim>\<open>slaveConfig.fixedContracts || masterQuantity\<close>.
\<close>

theorem percentage_zero_copies_full_quantity:
  "calculateScaledQuantity 3
     (followerConfig\<lparr>cfg_scalingType := PERCENTAGE, cfg_percentageScale := Some 0\<rparr>)
     followerAccount = 3
   \<and> calculateScaledQuantity 3
     (followerConfig\<lparr>cfg_scalingType := PERCENTAGE, cfg_percentageScale := Some 0\<rparr>)
     followerAccount \<noteq> \<lfloor>of_int 3 * (0 :: rat)\<rfloor>
   \<and> calculateScaledQuantity 3 (followerConfig\<lparr>cfg_fixedContracts := Some 0\<rparr>)
     followerAccount = 3"
  by (simp add: calculateScaledQuantity_def followerConfig_def)

section \<open>Risk gate\<close>


lemma checkRiskRules_allowed_keeps_db:
  "allowed (fst (checkRiskRules en cid C d)) \<Longrightarrow> snd (checkRiskRules en cid C d) = d"
  by (simp add: checkRiskRules_def Let_def split: option.splits if_splits)

lemma checkRiskRules_only_configs:
  "\<exists>cs. snd (checkRiskRules en cid C d) = d\<lparr>configs := cs\<rparr>"
proof (cases "snd (checkRiskRules en cid C d) = d")
  case True
  then have "snd (checkRiskRules en cid C d) = d\<lparr>configs := configs d\<rparr>" by simp
  then show ?thesis ..
next
  case False
  then show ?thesis
    by (auto simp: checkRiskRules_def Let_def copierAccountConfig_update_def
             split: option.splits if_splits)
qed


lemma checkRiskRules_without_limit:
  "cfg_dailyLossLimit C = None \<or> cfg_dailyLossLimit C = Some 0 \<Longrightarrow>
     checkRiskRules en cid C d = (\<lparr>allowed = True, reason = None\<rparr>, d)"
  by (auto simp: checkRiskRules_def)



section \<open>Copying a master fill to the followers\<close>

lemma checkRiskRules_frame:
  "trades (snd (checkRiskRules en cid C d)) = trades d"
  "mappings (snd (checkRiskRules en cid C d)) = mappings d"
  "executionLogs (snd (checkRiskRules en cid C d)) = executionLogs d"
  "copiers (snd (checkRiskRules en cid C d)) = copiers d"
  "accounts (snd (checkRiskRules en cid C d)) = accounts d"
  "nextId (snd (checkRiskRules en cid C d)) = nextId d"
  using checkRiskRules_only_configs [of en cid C d] by auto

lemma checkRiskRules_rejected_reason:
  "\<not> allowed (fst (checkRiskRules en cid C d)) \<Longrightarrow>
     \<exists>limit. cfg_dailyLossLimit C = Some limit \<and>
       reason (fst (checkRiskRules en cid C d)) =
         Some [Str ''Daily loss limit exceeded: '',
               Num (dailyLossOf (todayTrades en cid C d))]"
  by (auto simp: checkRiskRules_def Let_def split: option.splits if_splits)

text \<open>
  Claim C6, amended: whenever the risk gate rejects a follower copy, the engine writes one
  warn-level line containing the rejection reason to the process logger and no row to the
  \<open>ExecutionLog\<close> table (the \<open>ExecutionLog\<close>, \<open>Trade\<close> and \<open>TradeMapping\<close> tables stay as they
  were), skips that follower (no adapter is connected, no order is placed), and the
  follower's promise fulfils, so the rejection is never surfaced to the master path as an
  error.
\<close>

theorem risk_rejection_warns_and_skips:
  assumes rej: "\<not> allowed (fst (checkRiskRules en cid (fst sc) (db w)))"
  shows "fst (copyTradeToSlave en cid mt sc w) = Fulfilled
     \<and> (\<exists>why. reason (fst (checkRiskRules en cid (fst sc) (db w))) = Some why
          \<and> loggerOut (snd (copyTradeToSlave en cid mt sc w)) =
              loggerOut w @ [(''warn'', [Str ''Risk rule violated for slave '',
                                         Str (cfg_slaveAccountId (fst sc)), Str '': ''] @ why)])
     \<and> executionLogs (db (snd (copyTradeToSlave en cid mt sc w))) = executionLogs (db w)
     \<and> trades (db (snd (copyTradeToSlave en cid mt sc w))) = trades (db w)
     \<and> mappings (db (snd (copyTradeToSlave en cid mt sc w))) = mappings (db w)
     \<and> sent (snd (copyTradeToSlave en cid mt sc w)) = sent w
     \<and> connectCalls (snd (copyTradeToSlave en cid mt sc w)) = connectCalls w"
proof -
  from checkRiskRules_rejected_reason [OF rej] obtain why where
    why: "reason (fst (checkRiskRules en cid (fst sc) (db w))) = Some why" by blast
  have body: "copyTradeToSlave_try en cid mt sc w =
      (None, logLine ''warn'' ([Str ''Risk rule violated for slave '',
                 Str (cfg_slaveAccountId (fst sc)), Str '': ''] @ why)
               (w\<lparr>db := snd (checkRiskRules en cid (fst sc) (db w))\<rparr>))"
    using rej why by (simp add: copyTradeToSlave_try_def Let_def)
  show ?thesis
    using why by (simp add: copyTradeToSlave_def body logLine_def checkRiskRules_frame)
qed


lemma logLine_simps [simp]:
  "db (logLine l m w) = db w" "sent (logLine l m w) = sent w"
  "connectedKeys (logLine l m w) = connectedKeys w" "connectCalls (logLine l m w) = connectCalls w"
  "loggerOut (logLine l m w) = loggerOut w @ [(l, m)]"
  by (simp_all add: logLine_def)

lemma trade_create_frame [simp]:
  "trades (snd (trade_create t d)) = trades d @ [t\<lparr>t_id := cuid (nextId d)\<rparr>]"
  "fst (trade_create t d) = t\<lparr>t_id := cuid (nextId d)\<rparr>"
  "nextId (snd (trade_create t d)) = Suc (nextId d)"
  "copiers (snd (trade_create t d)) = copiers d"
  "accounts (snd (trade_create t d)) = accounts d"
  "configs (snd (trade_create t d)) = configs d"
  "mappings (snd (trade_create t d)) = mappings d"
  "executionLogs (snd (trade_create t d)) = executionLogs d"
  by (simp_all add: trade_create_def Let_def)

lemma executionLog_create_frame [simp]:
  "executionLogs (executionLog_create l d) = executionLogs d @ [l\<lparr>l_id := cuid (nextId d)\<rparr>]"
  "nextId (executionLog_create l d) = Suc (nextId d)"
  "copiers (executionLog_create l d) = copiers d"
  "accounts (executionLog_create l d) = accounts d"
  "configs (executionLog_create l d) = configs d"
  "mappings (executionLog_create l d) = mappings d"
  "trades (executionLog_create l d) = trades d"
  by (simp_all add: executionLog_create_def)




lemma ensureConnected_frame [simp]:
  "db (snd (ensureConnected en key cc w)) = db w"
  "sent (snd (ensureConnected en key cc w)) = sent w"
  "loggerOut (snd (ensureConnected en key cc w)) = loggerOut w"
  by (simp_all add: ensureConnected_def Let_def split: option.splits)

lemma ensureConnected_ok:
  "key \<in> set (connectedKeys w) \<or> connectResult en key cc = None \<Longrightarrow>
   fst (ensureConnected en key cc w) = None"
  by (auto simp: ensureConnected_def Let_def)



lemma ensureConnected_eqD:
  "ensureConnected en key cc w = (r, w2) \<Longrightarrow>
     db w2 = db w \<and> sent w2 = sent w \<and> loggerOut w2 = loggerOut w"
  using ensureConnected_frame [of en key cc w] by simp









lemma cuid_inject [simp]: "cuid m = cuid n \<longleftrightarrow> m = n"
proof
  assume "cuid m = cuid n"
  then have "length (cuid m) = length (cuid n)" by simp
  then show "m = n" by (simp add: cuid_def)
qed simp





lemma config_maxContracts_irrelevant:
  "checkRiskRules en cid (C\<lparr>cfg_maxContracts := m\<rparr>) d = checkRiskRules en cid C d"
  "calculateScaledQuantity Q (C\<lparr>cfg_maxContracts := m\<rparr>) A = calculateScaledQuantity Q C A"
  "slaveTradeData en cid mt (C\<lparr>cfg_maxContracts := m\<rparr>) ex = slaveTradeData en cid mt C ex"
  "syncedMapping en cid mt st (C\<lparr>cfg_maxContracts := m\<rparr>) = syncedMapping en cid mt st C"
  "failedMapping cid mt (C\<lparr>cfg_maxContracts := m\<rparr>) msg = failedMapping cid mt C msg"
  "copiedLog cid mt st (C\<lparr>cfg_maxContracts := m\<rparr>) = copiedLog cid mt st C"
  "failedLog cid mt (C\<lparr>cfg_maxContracts := m\<rparr>) msg = failedLog cid mt C msg"
  by (simp_all add: checkRiskRules_def todayTrades_def calculateScaledQuantity_def
        slaveTradeData_def syncedMapping_def failedMapping_def copiedLog_def failedLog_def
        Let_def split: option.split RiskScalingType.split)

lemma copyTradeToSlave_try_sent:
  "sent (snd (copyTradeToSlave_try en cid mt (C, A) w)) = sent w
   \<or> sent (snd (copyTradeToSlave_try en cid mt (C, A) w)) =
       sent w @ [((a_platform A, a_firm A),
                  slaveOrderOf mt (calculateScaledQuantity (t_quantity mt) C A))]"
  unfolding copyTradeToSlave_try_def Let_def
  by (auto dest!: ensureConnected_eqD split: prod.splits option.splits sum.splits)

lemma copyTradeToSlave_sent_eq:
  "sent (snd (copyTradeToSlave en cid mt sc w)) = sent (snd (copyTradeToSlave_try en cid mt sc w))"
  by (auto simp: copyTradeToSlave_def Let_def logLine_def split: prod.splits option.splits sum.splits)

text \<open>
  Claim C2, amended: the engine never reads \<open>maxContracts\<close>.  For every follower config
  \<open>C\<close>, copying to the follower behaves the same whatever \<open>C.maxContracts\<close> is; every order
  it places carries the scaled quantity itself, unclamped; and whenever the risk gate allows
  the copy, the scaled quantity is positive and the follower's adapter is registered and
  connected (or connects), an order of that quantity is placed, so \<open>maxContracts = 0\<close> does
  not make the engine skip the follower.
\<close>

theorem maxContracts_is_never_read:
  "copyTradeToSlave en cid mt (C\<lparr>cfg_maxContracts := m\<rparr>, A) w
     = copyTradeToSlave en cid mt (C, A) w
   \<and> (sent (snd (copyTradeToSlave en cid mt (C, A) w)) = sent w
       \<or> (\<exists>ord. sent (snd (copyTradeToSlave en cid mt (C, A) w))
                   = sent w @ [((a_platform A, a_firm A), ord)]
              \<and> o_quantity ord = calculateScaledQuantity (t_quantity mt) C A))
   \<and> (allowed (fst (checkRiskRules en cid C (db w)))
        \<and> 0 < calculateScaledQuantity (t_quantity mt) C A
        \<and> registered en (a_platform A, a_firm A)
        \<and> ((a_platform A, a_firm A) \<in> set (connectedKeys w)
            \<or> connectResult en (a_platform A, a_firm A) (engineConnectionConfig A) = None)
      \<longrightarrow> (\<exists>ord. sent (snd (copyTradeToSlave en cid mt (C, A) w))
                   = sent w @ [((a_platform A, a_firm A), ord)]
              \<and> o_quantity ord = calculateScaledQuantity (t_quantity mt) C A))"
proof (intro conjI impI)
  show "copyTradeToSlave en cid mt (C\<lparr>cfg_maxContracts := m\<rparr>, A) w
          = copyTradeToSlave en cid mt (C, A) w"
    by (simp add: copyTradeToSlave_def copyTradeToSlave_try_def config_maxContracts_irrelevant
             cong: if_cong option.case_cong sum.case_cong prod.case_cong
             split del: if_split)
next
  have q: "o_quantity (slaveOrderOf mt q) = q" for q by (simp add: slaveOrderOf_def)
  show "sent (snd (copyTradeToSlave en cid mt (C, A) w)) = sent w
       \<or> (\<exists>ord. sent (snd (copyTradeToSlave en cid mt (C, A) w))
                   = sent w @ [((a_platform A, a_firm A), ord)]
              \<and> o_quantity ord = calculateScaledQuantity (t_quantity mt) C A)"
    using copyTradeToSlave_try_sent [of en cid mt C A w] q
    by (auto simp: copyTradeToSlave_sent_eq)
next
  assume h: "allowed (fst (checkRiskRules en cid C (db w)))
        \<and> 0 < calculateScaledQuantity (t_quantity mt) C A
        \<and> registered en (a_platform A, a_firm A)
        \<and> ((a_platform A, a_firm A) \<in> set (connectedKeys w)
            \<or> connectResult en (a_platform A, a_firm A) (engineConnectionConfig A) = None)"
  let ?key = "(a_platform A, a_firm A)"
  let ?q = "calculateScaledQuantity (t_quantity mt) C A"
  have w1: "w\<lparr>db := snd (checkRiskRules en cid C (db w))\<rparr> = w"
    using checkRiskRules_allowed_keeps_db [of en cid C "db w"] h by simp
  obtain w2 where ec: "ensureConnected en ?key (engineConnectionConfig A) w = (None, w2)"
    using ensureConnected_ok [of ?key w en "engineConnectionConfig A"] h by (metis prod.collapse)
  have w2: "sent w2 = sent w" using ensureConnected_eqD [OF ec] by simp
  have "sent (snd (copyTradeToSlave_try en cid mt (C, A) w)) = sent w @ [(?key, slaveOrderOf mt ?q)]"
    using h by (simp add: copyTradeToSlave_try_def Let_def w1 ec w2 logLine_def
                     split: sum.splits)
  then show "\<exists>ord. sent (snd (copyTradeToSlave en cid mt (C, A) w))
                   = sent w @ [((a_platform A, a_firm A), ord)]
              \<and> o_quantity ord = calculateScaledQuantity (t_quantity mt) C A"
    by (simp add: copyTradeToSlave_sent_eq slaveOrderOf_def)
qed

section \<open>The engine on the sample rows\<close>

lemmas sample_defs = sampleWorld_def sampleDb_def sampleEnv_def sampleCopier_def masterAccount_def
  followerAccount_def followerConfig_def masterFill_def fillOf_def masterRow_def lossTrade_def

lemmas engine_defs = handleMasterTrade_def find_copier_def activeSlaveConfigs_def joinAccount_def
  List.map_filter_def masterTradeData_def copyTradeToSlave_def copyTradeToSlave_try_def
  checkRiskRules_def calculateScaledQuantity_def ensureConnected_def engineConnectionConfig_def
  slaveOrderOf_def slaveTradeData_def syncedMapping_def failedMapping_def copiedLog_def
  failedLog_def tradeMapping_create_def trade_create_def executionLog_create_def logLine_def
  mapTradeStatus_def executedAtOr_def todayTrades_def dailyLossOf_def
  copierAccountConfig_update_def or_str_def



text \<open>
  Claim C2, as stated, fails: with \<open>fixedContracts = 5\<close> and \<open>maxContracts = 2\<close> the order
  placed on the follower is for 5 contracts, more than \<open>maxContracts\<close>.
\<close>

theorem order_quantity_exceeds_maxContracts:
  "cfg_maxContracts (followerConfig\<lparr>cfg_maxContracts := Some 2\<rparr>) = Some 2
   \<and> map (\<lambda>p. o_quantity (snd p))
       (sent (snd (copyTradeToSlave sampleEnv ''cop1'' masterRow
          (followerConfig\<lparr>cfg_maxContracts := Some 2\<rparr>, followerAccount) sampleWorld))) = [5]
   \<and> (2 :: int) < 5"
  by (simp add: sample_defs engine_defs Let_def)

theorem maxContracts_is_never_read_witness:
  "allowed (fst (checkRiskRules sampleEnv ''cop1''
       (followerConfig\<lparr>cfg_maxContracts := Some 0\<rparr>) (db sampleWorld)))
   \<and> 0 < calculateScaledQuantity (t_quantity masterRow)
           (followerConfig\<lparr>cfg_maxContracts := Some 0\<rparr>) followerAccount
   \<and> registered sampleEnv (a_platform followerAccount, a_firm followerAccount)
   \<and> connectResult sampleEnv (a_platform followerAccount, a_firm followerAccount)
        (engineConnectionConfig followerAccount) = None
   \<and> (\<exists>ord. sent (snd (copyTradeToSlave sampleEnv ''cop1'' masterRow
                  (followerConfig\<lparr>cfg_maxContracts := Some 0\<rparr>, followerAccount) sampleWorld))
               = sent sampleWorld @ [((a_platform followerAccount, a_firm followerAccount), ord)]
            \<and> o_quantity ord = 5)"
proof -
  let ?C = "followerConfig\<lparr>cfg_maxContracts := Some 0\<rparr>"
  have h1: "allowed (fst (checkRiskRules sampleEnv ''cop1'' ?C (db sampleWorld)))"
    by (simp add: checkRiskRules_def followerConfig_def)
  have h2: "calculateScaledQuantity (t_quantity masterRow) ?C followerAccount = 5"
    by (simp add: calculateScaledQuantity_def followerConfig_def)
  have h3: "registered sampleEnv (a_platform followerAccount, a_firm followerAccount)"
    by (simp add: sampleEnv_def)
  have h4: "connectResult sampleEnv (a_platform followerAccount, a_firm followerAccount)
              (engineConnectionConfig followerAccount) = None"
    by (simp add: sampleEnv_def)
  from maxContracts_is_never_read
         [where en = sampleEnv and cid = "''cop1''" and mt = masterRow and C = ?C
            and A = followerAccount and w = sampleWorld] h1 h2 h3 h4
  show ?thesis by simp
qed


text \<open>
  Claim C6, as stated, fails: the follower's filled trades of the day sum to -500 against a
  limit of 500, the gate rejects the copy, and the \<open>ExecutionLog\<close> table is still empty
  afterwards: the rejection went to the process logger only.
\<close>

theorem risk_rejection_writes_no_execution_log:
  "\<not> allowed (fst (checkRiskRules sampleEnv ''cop1''
        (followerConfig\<lparr>cfg_dailyLossLimit := Some 500\<rparr>)
        (db (sampleWorld\<lparr>db := sampleDb\<lparr>trades := [lossTrade]\<rparr>\<rparr>))))
   \<and> executionLogs (db (snd (copyTradeToSlave sampleEnv ''cop1'' masterRow
        (followerConfig\<lparr>cfg_dailyLossLimit := Some 500\<rparr>, followerAccount)
        (sampleWorld\<lparr>db := sampleDb\<lparr>trades := [lossTrade]\<rparr>\<rparr>)))) = []
   \<and> map fst (loggerOut (snd (copyTradeToSlave sampleEnv ''cop1'' masterRow
        (followerConfig\<lparr>cfg_dailyLossLimit := Some 500\<rparr>, followerAccount)
        (sampleWorld\<lparr>db := sampleDb\<lparr>trades := [lossTrade]\<rparr>\<rparr>)))) = [''warn'']"
  by (simp add: sample_defs engine_defs Let_def)

theorem risk_rejection_warns_and_skips_witness:
  "\<not> allowed (fst (checkRiskRules sampleEnv ''cop1''
        (followerConfig\<lparr>cfg_dailyLossLimit := Some 500\<rparr>)
        (db (sampleWorld\<lparr>db := sampleDb\<lparr>trades := [lossTrade]\<rparr>\<rparr>))))
   \<and> fst (copyTradeToSlave sampleEnv ''cop1'' masterRow
        (followerConfig\<lparr>cfg_dailyLossLimit := Some 500\<rparr>, followerAccount)
        (sampleWorld\<lparr>db := sampleDb\<lparr>trades := [lossTrade]\<rparr>\<rparr>)) = Fulfilled
   \<and> sent (snd (copyTradeToSlave sampleEnv ''cop1'' masterRow
        (followerConfig\<lparr>cfg_dailyLossLimit := Some 500\<rparr>, followerAccount)
        (sampleWorld\<lparr>db := sampleDb\<lparr>trades := [lossTrade]\<rparr>\<rparr>)))
       = sent (sampleWorld\<lparr>db := sampleDb\<lparr>trades := [lossTrade]\<rparr>\<rparr>)"
proof -
  let ?sc = "(followerConfig\<lparr>cfg_dailyLossLimit := Some 500\<rparr>, followerAccount)"
  let ?w = "sampleWorld\<lparr>db := sampleDb\<lparr>trades := [lossTrade]\<rparr>\<rparr>"
  have h: "\<not> allowed (fst (checkRiskRules sampleEnv ''cop1'' (fst ?sc) (db ?w)))"
    by (simp add: sample_defs checkRiskRules_def todayTrades_def dailyLossOf_def Let_def)
  from risk_rejection_warns_and_skips [OF h, of masterRow] h
  show ?thesis by simp
qed

section \<open>Connecting an account\<close>






section \<open>Deleting a copier, deleting an account\<close>

text \<open>
  Claim C8, as stated, fails: the follower account of the sample database is referenced by
  a Trade row; deleting the account is refused by \<open>Trade_accountId_fkey\<close>
  (\<open>ON DELETE RESTRICT\<close>), so neither the account nor the trade is deleted.
\<close>

theorem account_with_trades_is_not_deleted:
  "find (\<lambda>t. t_accountId t = ''acc-f'') (trades usedDb) = Some lossTrade
   \<and> tradingAccount_delete ''acc-f'' usedDb = Inl (ForeignKeyViolation ''Trade_accountId_fkey'')"
  by (simp add: tradingAccount_delete_def usedDb_def sampleDb_def lossTrade_def
        masterAccount_def followerAccount_def sampleCopier_def)

text \<open>
  Claim C8, amended: on deleting a Copier, every Trade row is kept, with its copier
  reference set to null where it referenced that copier and unchanged otherwise, while the
  copier's ExecutionLog and TradeMapping rows (and only those) are deleted.  Deleting a
  TradingAccount that a Trade row references is refused; when a TradingAccount is deleted,
  no Trade row referenced it and the Trade table is left as it was.
\<close>

theorem referential_actions_on_delete:
  "(copier_delete cid d1 = Inr d1' \<longrightarrow>
      map (\<lambda>t. t\<lparr>t_copierId := None\<rparr>) (trades d1') = map (\<lambda>t. t\<lparr>t_copierId := None\<rparr>) (trades d1)
      \<and> map t_copierId (trades d1')
          = map (\<lambda>t. if t_copierId t = Some cid then None else t_copierId t) (trades d1)
      \<and> executionLogs d1' = filter (\<lambda>l. l_copierId l \<noteq> cid) (executionLogs d1)
      \<and> mappings d1' = filter (\<lambda>m. m_copierId m \<noteq> cid) (mappings d1)
      \<and> (\<forall>l \<in> set (executionLogs d1'). l_copierId l \<noteq> cid)
      \<and> (\<forall>m \<in> set (mappings d1'). m_copierId m \<noteq> cid))
   \<and> (find (\<lambda>t. t_accountId t = aid) (trades d2) \<noteq> None \<longrightarrow>
        (\<exists>e. tradingAccount_delete aid d2 = Inl e))
   \<and> (tradingAccount_delete aid d3 = Inr d3' \<longrightarrow>
        trades d3' = trades d3 \<and> (\<forall>t \<in> set (trades d3). t_accountId t \<noteq> aid))"
proof (intro conjI impI)
  assume del: "copier_delete cid d1 = Inr d1'"
  then have d1': "d1' = d1\<lparr>copiers := filter (\<lambda>c. c_id c \<noteq> cid) (copiers d1),
                 configs := filter (\<lambda>c. cfg_copierId c \<noteq> cid) (configs d1),
                 trades := map (\<lambda>t. if t_copierId t = Some cid then t\<lparr>t_copierId := None\<rparr>
                                     else t) (trades d1),
                 mappings := filter (\<lambda>m. m_copierId m \<noteq> cid) (mappings d1),
                 executionLogs := filter (\<lambda>l. l_copierId l \<noteq> cid) (executionLogs d1)\<rparr>"
    by (auto simp: copier_delete_def split: option.splits)
  show "map (\<lambda>t. t\<lparr>t_copierId := None\<rparr>) (trades d1')
          = map (\<lambda>t. t\<lparr>t_copierId := None\<rparr>) (trades d1)"
    by (simp add: d1' comp_def if_distrib cong: if_cong)
  show "map t_copierId (trades d1')
          = map (\<lambda>t. if t_copierId t = Some cid then None else t_copierId t) (trades d1)"
    by (simp add: d1' comp_def if_distrib cong: if_cong)
  show "executionLogs d1' = filter (\<lambda>l. l_copierId l \<noteq> cid) (executionLogs d1)"
    by (simp add: d1')
  show "mappings d1' = filter (\<lambda>m. m_copierId m \<noteq> cid) (mappings d1)"
    by (simp add: d1')
  show "\<forall>l \<in> set (executionLogs d1'). l_copierId l \<noteq> cid" by (simp add: d1')
  show "\<forall>m \<in> set (mappings d1'). m_copierId m \<noteq> cid" by (simp add: d1')
next
  assume "find (\<lambda>t. t_accountId t = aid) (trades d2) \<noteq> None"
  then show "\<exists>e. tradingAccount_delete aid d2 = Inl e"
    by (auto simp: tradingAccount_delete_def split: option.splits)
next
  assume del: "tradingAccount_delete aid d3 = Inr d3'"
  then show "trades d3' = trades d3"
    by (auto simp: tradingAccount_delete_def split: option.splits)
next
  assume del: "tradingAccount_delete aid d3 = Inr d3'"
  then have "find (\<lambda>t. t_accountId t = aid) (trades d3) = None"
    by (auto simp: tradingAccount_delete_def split: option.splits)
  then show "\<forall>t \<in> set (trades d3). t_accountId t \<noteq> aid"
    by (simp add: find_None_iff)
qed

theorem referential_actions_on_delete_witness:
  "copier_delete ''cop1'' usedDb =
     Inr (usedDb\<lparr>copiers := [], configs := [], trades := [lossTrade\<lparr>t_copierId := None\<rparr>],
                 mappings := [], executionLogs := []\<rparr>)
   \<and> map t_copierId (trades (usedDb\<lparr>copiers := [], configs := [],
         trades := [lossTrade\<lparr>t_copierId := None\<rparr>], mappings := [], executionLogs := []\<rparr>))
       = [None]
   \<and> find (\<lambda>t. t_accountId t = ''acc-f'') (trades usedDb) \<noteq> None
   \<and> (\<exists>e. tradingAccount_delete ''acc-f'' usedDb = Inl e)
   \<and> tradingAccount_delete ''acc-f'' (sampleDb\<lparr>configs := []\<rparr>)
       = Inr (sampleDb\<lparr>accounts := [masterAccount], configs := []\<rparr>)
   \<and> trades (sampleDb\<lparr>accounts := [masterAccount], configs := []\<rparr>)
       = trades (sampleDb\<lparr>configs := []\<rparr>)"
proof -
  let ?d1' = "usedDb\<lparr>copiers := [], configs := [], trades := [lossTrade\<lparr>t_copierId := None\<rparr>],
                    mappings := [], executionLogs := []\<rparr>"
  have h1: "copier_delete ''cop1'' usedDb = Inr ?d1'"
    by (simp add: copier_delete_def usedDb_def sampleDb_def sampleCopier_def followerConfig_def
          lossTrade_def sampleMapping_def sampleLog_def)
  have h2: "find (\<lambda>t. t_accountId t = ''acc-f'') (trades usedDb) \<noteq> None"
    by (simp add: usedDb_def lossTrade_def)
  have h3: "tradingAccount_delete ''acc-f'' (sampleDb\<lparr>configs := []\<rparr>)
              = Inr (sampleDb\<lparr>accounts := [masterAccount], configs := []\<rparr>)"
    by (simp add: tradingAccount_delete_def sampleDb_def masterAccount_def followerAccount_def
          sampleCopier_def)
  note T = referential_actions_on_delete
             [where cid = "''cop1''" and ?d1.0 = usedDb and d1' = ?d1'
                and aid = "''acc-f''" and ?d2.0 = usedDb
                and ?d3.0 = "sampleDb\<lparr>configs := []\<rparr>"
                and d3' = "sampleDb\<lparr>accounts := [masterAccount], configs := []\<rparr>"]
  have a: "map t_copierId (trades ?d1') = [None]"
    using T h1 by (simp add: usedDb_def lossTrade_def)
  have b: "\<exists>e. tradingAccount_delete ''acc-f'' usedDb = Inl e"
    using T h2 by blast
  have c: "trades (sampleDb\<lparr>accounts := [masterAccount], configs := []\<rparr>)
             = trades (sampleDb\<lparr>configs := []\<rparr>)"
    using T h3 by blast
  from h1 a h2 b h3 c show ?thesis by (intro conjI)
qed

section \<open>The authentication probe\<close>

lemma postEach_firstAccepted:
  "postEach post p es s = firstAccepted post (map (\<lambda>endpoint. (endpoint, p)) es) s"
  by (induction es arbitrary: s) (simp_all add: Let_def split: option.split)

lemma firstAccepted_append:
  "firstAccepted post (xs @ ys) s =
     (case fst (firstAccepted post xs s) of
        Some body \<Rightarrow> firstAccepted post xs s
      | None \<Rightarrow> firstAccepted post ys (snd (firstAccepted post xs s)))"
  by (induction xs arbitrary: s) (simp_all add: Let_def split: option.split)

lemma firstAccepted_Some:
  "fst (firstAccepted post xs s) = Some body \<Longrightarrow>
     firstAccepted post xs s = (Some body, snd (firstAccepted post xs s))"
  by (metis prod.collapse)

text \<open>
  Claim C9, as stated, fails.  Against a server that answers every request with 401, and
  with all credentials present, the adapter's second request is the email shape at
  \<open>/api/auth/login\<close>, where the claimed order has the API-key shape at \<open>/auth/login\<close>;
  \<open>/oauth/token\<close> is never requested; and against a server that answers 204, a 2xx status,
  no response wins and the authentication fails.
\<close>

theorem probe_order_is_not_endpoint_major:
  "take 2 (snd (authenticate (recording 401) fullConfig []))
     = [(''/auth/login'', emailPayload fullConfig), (''/api/auth/login'', emailPayload fullConfig)]
   \<and> take 2 (spec_probeOrder fullConfig)
     = [(''/auth/login'', emailPayload fullConfig), (''/auth/login'', apiKeyPayload fullConfig)]
   \<and> snd (authenticate (recording 401) fullConfig []) \<noteq> spec_probeOrder fullConfig
   \<and> ''/oauth/token'' \<notin> set (map fst (snd (authenticate (recording 401) fullConfig [])))
   \<and> ''/oauth/token'' \<in> set (map fst (spec_probeOrder fullConfig))
   \<and> fst (authenticate (recording 204) fullConfig [])
       = Inl (''Authentication failed: No valid credentials provided ''
              @ ''or all authentication methods failed'')"
proof -
  have run: "snd (authenticate (recording 401) fullConfig []) = probeOrder fullConfig"
    by (simp add: authenticate_def recording_def fullConfig_def authEndpoints_def accepted_def
          truthy_str_def probeOrder_def shapesOf_def Let_def)
  have code2: "take 2 (probeOrder fullConfig)
     = [(''/auth/login'', emailPayload fullConfig), (''/api/auth/login'', emailPayload fullConfig)]"
    by (simp add: probeOrder_def shapesOf_def authEndpoints_def fullConfig_def truthy_str_def)
  have spec2: "take 2 (spec_probeOrder fullConfig)
     = [(''/auth/login'', emailPayload fullConfig), (''/auth/login'', apiKeyPayload fullConfig)]"
    by (simp add: spec_probeOrder_def shapesOf_def spec_authEndpoints_def fullConfig_def
          truthy_str_def)
  have differ: "probeOrder fullConfig \<noteq> spec_probeOrder fullConfig"
  proof
    assume "probeOrder fullConfig = spec_probeOrder fullConfig"
    then have "take 2 (probeOrder fullConfig) = take 2 (spec_probeOrder fullConfig)" by simp
    then show False
      unfolding code2 spec2 by (simp add: emailPayload_def apiKeyPayload_def)
  qed
  have never: "''/oauth/token'' \<notin> set (map fst (probeOrder fullConfig))"
    by (simp add: probeOrder_def shapesOf_def authEndpoints_def fullConfig_def truthy_str_def)
  have spec_has: "''/oauth/token'' \<in> set (map fst (spec_probeOrder fullConfig))"
    by (simp add: spec_probeOrder_def shapesOf_def spec_authEndpoints_def fullConfig_def
          truthy_str_def)
  have no_content: "fst (authenticate (recording 204) fullConfig [])
       = Inl (''Authentication failed: No valid credentials provided ''
              @ ''or all authentication methods failed'')"
    by (simp add: authenticate_def recording_def fullConfig_def authEndpoints_def accepted_def
          truthy_str_def Let_def)
  show ?thesis
    unfolding run using code2 spec2 differ never spec_has no_content by (intro conjI)
qed

text \<open>
  Claim C9, amended: during the authentication probe the adapter iterates the credential
  shapes in the order (a) email+password, when both are present, (b) apiKey+apiSecret, when
  both are present, (c) username(=accountNumber)+password, when a password is present, and,
  for each shape, tries the auth endpoints in the order \<open>/auth/login\<close>, \<open>/api/auth/login\<close>,
  \<open>/v1/auth/login\<close>, \<open>/login\<close>, \<open>/api/login\<close>, \<open>/authenticate\<close>, \<open>/api/authenticate\<close>; the
  first response with status 200 or 201 wins, any other response or a transport error moves
  to the next request, and if every (shape, endpoint) combination fails the authentication
  fails with an error.
\<close>

theorem authenticate_probes_shape_by_shape:
  "authenticate post config s = probeInOrder post (probeOrder config) s
   \<and> probeOrder config = concat (map (\<lambda>p. map (\<lambda>endpoint. (endpoint, p))
        [''/auth/login'', ''/api/auth/login'', ''/v1/auth/login'', ''/login'', ''/api/login'',
         ''/authenticate'', ''/api/authenticate'']) (shapesOf config))
   \<and> accepted (Response status body) = (if status = 200 \<or> status = 201 then Some body else None)
   \<and> accepted (TransportError m) = None
   \<and> fst (probeInOrder post [] s)
       = Inl (''Authentication failed: No valid credentials provided ''
              @ ''or all authentication methods failed'')"
proof (intro conjI)
  show "authenticate post config s = probeInOrder post (probeOrder config) s"
  proof -
    let ?e = "truthy_str (cc_email config) \<and> truthy_str (cc_password config)"
    let ?k = "truthy_str (cc_apiKey config) \<and> truthy_str (cc_apiSecret config)"
    let ?u = "truthy_str (cc_password config)"
    let ?E = "map (\<lambda>endpoint. (endpoint, emailPayload config)) authEndpoints"
    let ?K = "map (\<lambda>endpoint. (endpoint, apiKeyPayload config)) authEndpoints"
    let ?U = "map (\<lambda>endpoint. (endpoint, usernamePayload config)) authEndpoints"
    have order: "probeOrder config =
        (if ?e then ?E else []) @ (if ?k then ?K else []) @ (if ?u then ?U else [])"
      by (auto simp: probeOrder_def shapesOf_def)
    have nil: "firstAccepted post [] x = (None, x)" for x by simp
    show ?thesis
      unfolding authenticate_def probeInOrder_def order Let_def postEach_firstAccepted
        firstAccepted_append
      by (cases ?e; cases ?k; cases ?u)
         (auto split: option.splits prod.splits dest: firstAccepted_Some)
  qed
next
  show "probeOrder config = concat (map (\<lambda>p. map (\<lambda>endpoint. (endpoint, p))
        [''/auth/login'', ''/api/auth/login'', ''/v1/auth/login'', ''/login'', ''/api/login'',
         ''/authenticate'', ''/api/authenticate'']) (shapesOf config))"
    by (simp add: probeOrder_def authEndpoints_def)
next
  show "accepted (Response status body)
          = (if status = 200 \<or> status = 201 then Some body else None)"
    by (auto simp: accepted_def)
next
  show "accepted (TransportError m) = None" by (simp add: accepted_def)
next
  show "fst (probeInOrder post [] s)
       = Inl (''Authentication failed: No valid credentials provided ''
              @ ''or all authentication methods failed'')"
    by (simp add: probeInOrder_def)
qed

section \<open>Placing an order through BaseHttpAdapter\<close>

lemma onTradeUpdate_registers [simp]:
  "tradeCallbacks (onTradeUpdate callback a) = tradeCallbacks a @ [callback]"
  "ad_connected (onTradeUpdate callback a) = ad_connected a"
  "invoked (onTradeUpdate callback a) = invoked a"
  by (simp_all add: onTradeUpdate_def)

lemma placeOrder_success:
  "ad_connected a \<Longrightarrow> executePlaceOrder ord = Inr execution \<Longrightarrow>
     placeOrder executePlaceOrder ord a = (Inr execution, notifyTrade execution a)"
  by (simp add: placeOrder_def)

text \<open>
  Claim C10: for every adapter built on \<open>BaseHttpAdapter\<close>, a successful
  \<open>placeOrder(order)\<close> invokes every callback registered via \<open>onTradeUpdate\<close> (and still
  registered) with the resulting execution, in registration order, before returning that
  execution to the caller; consequently an order placed through the adapter, such as the
  one the engine places on a follower account, reaches the adapter's trade-update callbacks
  exactly as an incoming execution delivered by the polling timer does.
\<close>

theorem placeOrder_notifies_trade_callbacks:
  assumes conn: "ad_connected a" and ok: "executePlaceOrder ord = Inr execution"
  shows "fst (placeOrder executePlaceOrder ord a) = Inr execution
     \<and> invoked (snd (placeOrder executePlaceOrder ord a))
         = invoked a @ map (\<lambda>callback. (callback, execution)) (tradeCallbacks a)
     \<and> (\<forall>callback \<in> set (tradeCallbacks a).
           (callback, execution) \<in> set (invoked (snd (placeOrder executePlaceOrder ord a))))
     \<and> (cb, execution)
           \<in> set (invoked (snd (placeOrder executePlaceOrder ord (onTradeUpdate cb a))))
     \<and> (\<not> truthy_str (lastTradeId a) \<or> Some (e_tradeId execution) \<noteq> lastTradeId a \<longrightarrow>
           invoked (pollTrades [execution] a)
             = invoked (snd (placeOrder executePlaceOrder ord a)))"
proof -
  have one: "placeOrder executePlaceOrder ord a = (Inr execution, notifyTrade execution a)"
    using conn ok by (rule placeOrder_success)
  have two: "placeOrder executePlaceOrder ord (onTradeUpdate cb a)
               = (Inr execution, notifyTrade execution (onTradeUpdate cb a))"
    using conn ok by (simp add: placeOrder_success)
  show ?thesis
    unfolding one two by (auto simp: notifyTrade_def)
qed

theorem placeOrder_notifies_trade_callbacks_witness:
  "ad_connected sampleAdapter
   \<and> fst (placeOrder (\<lambda>ord. Inr (fillOf ord)) (slaveOrderOf masterRow 5) sampleAdapter)
       = Inr (fillOf (slaveOrderOf masterRow 5))
   \<and> invoked (snd (placeOrder (\<lambda>ord. Inr (fillOf ord)) (slaveOrderOf masterRow 5) sampleAdapter))
       = [(1, fillOf (slaveOrderOf masterRow 5)), (2, fillOf (slaveOrderOf masterRow 5))]
   \<and> invoked (pollTrades [fillOf (slaveOrderOf masterRow 5)] sampleAdapter)
       = invoked (snd (placeOrder (\<lambda>ord. Inr (fillOf ord)) (slaveOrderOf masterRow 5)
                         sampleAdapter))"
proof -
  have h1: "ad_connected sampleAdapter" by (simp add: sampleAdapter_def)
  have h3: "\<not> truthy_str (lastTradeId sampleAdapter)"
    by (simp add: sampleAdapter_def truthy_str_def)
  note T = placeOrder_notifies_trade_callbacks
             [where a = sampleAdapter and executePlaceOrder = "\<lambda>ord. Inr (fillOf ord)"
                and ord = "slaveOrderOf masterRow 5"
                and execution = "fillOf (slaveOrderOf masterRow 5)" and cb = 0,
              OF h1 refl]
  have a: "fst (placeOrder (\<lambda>ord. Inr (fillOf ord)) (slaveOrderOf masterRow 5) sampleAdapter)
             = Inr (fillOf (slaveOrderOf masterRow 5))"
    using T by (rule conjunct1)
  have b: "invoked (snd (placeOrder (\<lambda>ord. Inr (fillOf ord)) (slaveOrderOf masterRow 5)
                           sampleAdapter))
       = [(1, fillOf (slaveOrderOf masterRow 5)), (2, fillOf (slaveOrderOf masterRow 5))]"
    using T by (simp add: sampleAdapter_def)
  have c: "invoked (pollTrades [fillOf (slaveOrderOf masterRow 5)] sampleAdapter)
       = invoked (snd (placeOrder (\<lambda>ord. Inr (fillOf ord)) (slaveOrderOf masterRow 5)
                         sampleAdapter))"
    using T h3 by blast
  from h1 a b c show ?thesis by (intro conjI)
qed

end
